theory Spec2Isabelle
  imports Main
begin

section \<open>Common types\<close>

text \<open>
  A Go \<^verbatim>\<open>error\<close> value is represented by its message. A nil error is \<open>None\<close> of
  \<open>error option\<close>; a nil slice or nil pointer is \<open>None\<close> of the corresponding option type.
\<close>

type_synonym error = string

section \<open>Contacts (flows/contact.go)\<close>

type_synonym ContactUUID = string
type_synonym GroupUUID = string
type_synonym Language = string
type_synonym URN = string

text \<open>\<^verbatim>\<open>&Group{uuid, name}\<close>: a group membership. The entries of a group list are taken to
  be non-nil pointers, which is all that \<^verbatim>\<open>AddGroup\<close> ever appends.\<close>

record Group =
  group_uuid :: GroupUUID
  group_name :: string

text \<open>The struct \<^verbatim>\<open>Contact\<close>. The slices \<^verbatim>\<open>urns\<close> and \<^verbatim>\<open>groups\<close> and the pointer
  \<^verbatim>\<open>fields\<close> can be nil. The value type of a field is a parameter.\<close>

type_synonym 'v Fields = "string \<rightharpoonup> 'v"

record 'v Contact =
  contact_uuid :: ContactUUID
  contact_name :: string
  contact_language :: Language
  contact_urns :: "URN list option"
  contact_groups :: "Group list option"
  contact_fields :: "'v Fields option"

text \<open>The elements of a possibly nil slice: ranging over a nil slice visits nothing and
  its length is 0.\<close>

definition elems :: "'a list option \<Rightarrow> 'a list" where
  "elems s = (case s of None \<Rightarrow> [] | Some xs \<Rightarrow> xs)"

definition SetLanguage :: "'v Contact \<Rightarrow> Language \<Rightarrow> 'v Contact" where
  "SetLanguage c lang = c\<lparr>contact_language := lang\<rparr>"

definition SetName :: "'v Contact \<Rightarrow> string \<Rightarrow> 'v Contact" where
  "SetName c name = c\<lparr>contact_name := name\<rparr>"

definition Groups :: "'v Contact \<Rightarrow> Group list option" where
  "Groups c = contact_groups c"

definition URNs :: "'v Contact \<Rightarrow> URN list option" where
  "URNs c = contact_urns c"

definition Fields :: "'v Contact \<Rightarrow> 'v Fields option" where
  "Fields c = contact_fields c"

text \<open>\<^verbatim>\<open>c.groups = append(c.groups, &Group{uuid, name})\<close>: no membership test.\<close>

definition AddGroup :: "'v Contact \<Rightarrow> GroupUUID \<Rightarrow> string \<Rightarrow> 'v Contact" where
  "AddGroup c uuid name =
     c\<lparr>contact_groups :=
         Some (elems (contact_groups c) @ [\<lparr>group_uuid = uuid, group_name = name\<rparr>])\<rparr>"

text \<open>The loop \<^verbatim>\<open>for i := range c.groups\<close> of \<^verbatim>\<open>RemoveGroup\<close>, from index \<open>i\<close> on: at the
  first index whose entry has the UUID, the entry is cut out and the loop returns true;
  when the indices are exhausted it returns false and nothing has been assigned.\<close>

function RemoveGroup_loop :: "'v Contact \<Rightarrow> GroupUUID \<Rightarrow> nat \<Rightarrow> 'v Contact \<times> bool" where
  "RemoveGroup_loop c uuid i =
     (let gs = elems (contact_groups c) in
      if i < length gs then
        if group_uuid (gs ! i) = uuid
        then (c\<lparr>contact_groups := Some (take i gs @ drop (i + 1) gs)\<rparr>, True)
        else RemoveGroup_loop c uuid (i + 1)
      else (c, False))"
  by pat_completeness auto
termination
  by (relation "measure (\<lambda>(c, uuid, i). length (elems (contact_groups c)) - i)") auto

declare RemoveGroup_loop.simps [simp del]

definition RemoveGroup :: "'v Contact \<Rightarrow> GroupUUID \<Rightarrow> 'v Contact \<times> bool" where
  "RemoveGroup c uuid = RemoveGroup_loop c uuid 0"

text \<open>A sequence of the mutating operations of a contact.\<close>

datatype contact_op =
    OpSetLanguage Language
  | OpSetName string
  | OpAddGroup GroupUUID string
  | OpRemoveGroup GroupUUID

fun apply_contact_op :: "'v Contact \<Rightarrow> contact_op \<Rightarrow> 'v Contact" where
  "apply_contact_op c (OpSetLanguage lang) = SetLanguage c lang"
| "apply_contact_op c (OpSetName name) = SetName c name"
| "apply_contact_op c (OpAddGroup uuid name) = AddGroup c uuid name"
| "apply_contact_op c (OpRemoveGroup uuid) = fst (RemoveGroup c uuid)"

fun apply_contact_ops :: "'v Contact \<Rightarrow> contact_op list \<Rightarrow> 'v Contact" where
  "apply_contact_ops c [] = c"
| "apply_contact_ops c (x # xs) = apply_contact_ops (apply_contact_op c x) xs"

text \<open>The UUIDs of the memberships of a contact, in order.\<close>

definition group_uuids :: "'v Contact \<Rightarrow> GroupUUID list" where
  "group_uuids c = map group_uuid (elems (contact_groups c))"

text \<open>Every \<^verbatim>\<open>AddGroup\<close> of the sequence adds a UUID that is not a member at that
  moment (the caller has checked before adding).\<close>

fun adds_only_new :: "'v Contact \<Rightarrow> contact_op list \<Rightarrow> bool" where
  "adds_only_new c [] = True"
| "adds_only_new c (x # xs) =
     ((case x of OpAddGroup uuid name \<Rightarrow> uuid \<notin> set (group_uuids c) | _ \<Rightarrow> True)
      \<and> adds_only_new (apply_contact_op c x) xs)"

text \<open>Concrete contacts and an operation sequence for the instances below.\<close>

definition new_contact :: "string Contact" where
  "new_contact = \<lparr>contact_uuid = ''c1'', contact_name = ''Ann'', contact_language = ''eng'',
      contact_urns = None, contact_groups = None, contact_fields = None\<rparr>"

definition member_contact :: "string Contact" where
  "member_contact = new_contact\<lparr>contact_groups :=
      Some [\<lparr>group_uuid = ''g1'', group_name = ''Customers''\<rparr>,
            \<lparr>group_uuid = ''g2'', group_name = ''Testers''\<rparr>]\<rparr>"

definition sample_ops :: "contact_op list" where
  "sample_ops = [OpAddGroup ''g1'' ''Customers'', OpAddGroup ''g2'' ''Testers'',
      OpRemoveGroup ''g1'', OpSetName ''Bob'', OpAddGroup ''g1'' ''Customers'']"

subsection \<open>Decoding a contact\<close>

text \<open>The struct \<^verbatim>\<open>contactEnvelope\<close>.\<close>

record 'v contactEnvelope =
  env_UUID :: ContactUUID
  env_Name :: string
  env_Language :: Language
  env_URNs :: "URN list option"
  env_Groups :: "Group list option"
  env_Fields :: "'v Fields option"

text \<open>
  The decoder \<^verbatim>\<open>json.Unmarshal\<close> belongs to Go's standard library, not to this
  repository. What it is given is represented by the outcome of parsing the bytes: a
  syntax or type error, or a JSON object of which each of the six members of the envelope
  is absent, \<^verbatim>\<open>null\<close>, or present with a value of the member's type.
\<close>

datatype 'a member = Absent | Null | Present 'a

record 'v contact_document =
  doc_uuid :: "ContactUUID member"
  doc_name :: "string member"
  doc_language :: "Language member"
  doc_urns :: "URN list member"
  doc_groups :: "Group list member"
  doc_fields :: "'v Fields member"

text \<open>A string field keeps its zero value for an absent or null member.\<close>

definition string_field :: "string member \<Rightarrow> string" where
  "string_field m = (case m of Present v \<Rightarrow> v | _ \<Rightarrow> [])"

text \<open>A slice or pointer field stays nil for an absent member and is set to nil by
  \<^verbatim>\<open>null\<close>; a present value, also an empty array, gives a non-nil value.\<close>

definition nilable_field :: "'a member \<Rightarrow> 'a option" where
  "nilable_field m = (case m of Present v \<Rightarrow> Some v | _ \<Rightarrow> None)"

text \<open>\<^verbatim>\<open>json.Unmarshal(data, &ce)\<close> into a fresh envelope: the envelope and the error.
  On an error the envelope is not used by the caller.\<close>

definition zero_envelope :: "'v contactEnvelope" where
  "zero_envelope = \<lparr>env_UUID = [], env_Name = [], env_Language = [], env_URNs = None,
      env_Groups = None, env_Fields = None\<rparr>"

definition json_Unmarshal :: "error + 'v contact_document \<Rightarrow> 'v contactEnvelope \<times> error option"
  where
  "json_Unmarshal data =
     (case data of
        Inl err \<Rightarrow> (zero_envelope, Some err)
      | Inr d \<Rightarrow>
          (\<lparr>env_UUID = string_field (doc_uuid d), env_Name = string_field (doc_name d),
            env_Language = string_field (doc_language d),
            env_URNs = nilable_field (doc_urns d), env_Groups = nilable_field (doc_groups d),
            env_Fields = nilable_field (doc_fields d)\<rparr>, None))"

text \<open>Modelled from the spec: \<^verbatim>\<open>NewFields\<close> is declared outside the sources; the
  contact's fields are a map from key to typed value, and a new one has no entry.\<close>

definition NewFields :: "'v Fields" where
  "NewFields = Map.empty"

text \<open>\<^verbatim>\<open>Contact.UnmarshalJSON\<close>: returns early with the error, the contact untouched;
  otherwise copies the envelope, replacing each nil by an empty value.\<close>

definition UnmarshalJSON ::
  "'v Contact \<Rightarrow> error + 'v contact_document \<Rightarrow> 'v Contact \<times> error option" where
  "UnmarshalJSON c data =
     (case json_Unmarshal data of
        (ce, Some err) \<Rightarrow> (c, Some err)
      | (ce, None) \<Rightarrow>
          (c\<lparr>contact_name := env_Name ce, contact_uuid := env_UUID ce,
             contact_language := env_Language ce,
             contact_urns := (if env_URNs ce = None then Some [] else env_URNs ce),
             contact_groups := (if env_Groups ce = None then Some [] else env_Groups ce),
             contact_fields := (if env_Fields ce = None then Some NewFields else env_Fields ce)\<rparr>,
           None))"

text \<open>\<^verbatim>\<open>&Contact{}\<close>.\<close>

definition zero_Contact :: "'v Contact" where
  "zero_Contact = \<lparr>contact_uuid = [], contact_name = [], contact_language = [],
      contact_urns = None, contact_groups = None, contact_fields = None\<rparr>"

text \<open>\<^verbatim>\<open>ReadContact\<close>: \<^verbatim>\<open>json.Unmarshal(data, contact)\<close> hands the bytes to the
  contact's own \<^verbatim>\<open>UnmarshalJSON\<close>; the contact is returned together with the error.\<close>

definition ReadContact :: "error + 'v contact_document \<Rightarrow> 'v Contact \<times> error option" where
  "ReadContact data = UnmarshalJSON zero_Contact data"

text \<open>A document with only a UUID and a name, and one whose members \<^verbatim>\<open>urns\<close> and
  \<^verbatim>\<open>fields\<close> are null and whose member \<^verbatim>\<open>groups\<close> is an empty array.\<close>

definition minimal_document :: "string contact_document" where
  "minimal_document = \<lparr>doc_uuid = Present ''c1'', doc_name = Present ''Ann'',
      doc_language = Absent, doc_urns = Absent, doc_groups = Absent, doc_fields = Absent\<rparr>"

definition null_document :: "string contact_document" where
  "null_document = \<lparr>doc_uuid = Present ''c1'', doc_name = Null,
      doc_language = Absent, doc_urns = Null, doc_groups = Present [], doc_fields = Null\<rparr>"

section \<open>Missing dependencies (package issues)\<close>

type_synonym NodeUUID = string
type_synonym ActionUUID = string

text \<open>An \<^verbatim>\<open>assets.Reference\<close> through its methods \<^verbatim>\<open>Type()\<close> and \<^verbatim>\<open>Identity()\<close>.\<close>

record Reference =
  ref_Type :: string
  ref_Identity :: string

text \<open>A \<^verbatim>\<open>flows.ExtractedReference\<close>: the UUID of its node, the UUID of its action (the
  action can be nil) and the reference. The node is taken to be non-nil, as
  \<^verbatim>\<open>ref.Node.UUID()\<close> is called unguarded.\<close>

record ExtractedReference =
  er_Node :: NodeUUID
  er_Action :: "ActionUUID option"
  er_Reference :: Reference

text \<open>Modelled from the spec: \<^verbatim>\<open>newBaseIssue\<close> and \<^verbatim>\<open>assets.NewTypedReference\<close> are
  declared outside the sources. An issue has a type tag, the UUIDs of the originating
  node and action and a description; the typed reference carries the reference with its
  type.\<close>

record baseIssue =
  issue_Type :: string
  issue_NodeUUID :: NodeUUID
  issue_ActionUUID :: ActionUUID
  issue_Description :: string

record MissingDependency = baseIssue +
  issue_Dependency :: Reference

definition TypeMissingDependency :: string where
  "TypeMissingDependency = ''missing_dependency''"

text \<open>\<^verbatim>\<open>fmt.Sprintf("missing %s dependency '%s'", ref.Type(), ref.Identity())\<close>.\<close>

definition newMissingDependency :: "NodeUUID \<Rightarrow> ActionUUID \<Rightarrow> Reference \<Rightarrow> MissingDependency"
  where
  "newMissingDependency nodeUUID actionUUID ref =
     \<lparr>issue_Type = TypeMissingDependency, issue_NodeUUID = nodeUUID,
      issue_ActionUUID = actionUUID,
      issue_Description =
        ''missing '' @ ref_Type ref @ '' dependency '' @ [CHR 0x27] @ ref_Identity ref @ [CHR 0x27],
      issue_Dependency = ref\<rparr>"

text \<open>The UUID passed for the action: the zero value (the empty string) when the
  reference has no action.\<close>

definition action_uuid_of :: "ExtractedReference \<Rightarrow> ActionUUID" where
  "action_uuid_of ref = (case er_Action ref of None \<Rightarrow> [] | Some u \<Rightarrow> u)"

text \<open>\<^verbatim>\<open>MissingDependencyCheck\<close>. The predicate \<^verbatim>\<open>ref.Check(sa)\<close> is the parameter
  \<open>Check\<close>; the callback \<^verbatim>\<open>report\<close> acts on the caller's state \<open>s\<close>, which is the only
  thing the loop can change. The flow is not looked at.\<close>

fun MissingDependencyCheck ::
  "('sa \<Rightarrow> ExtractedReference \<Rightarrow> bool) \<Rightarrow> 'sa \<Rightarrow> 'flow \<Rightarrow> ExtractedReference list \<Rightarrow>
     (MissingDependency \<Rightarrow> 's \<Rightarrow> 's) \<Rightarrow> 's \<Rightarrow> 's" where
  "MissingDependencyCheck Check sa flow [] report s = s"
| "MissingDependencyCheck Check sa flow (ref # refs) report s =
     (if \<not> Check sa ref
      then MissingDependencyCheck Check sa flow refs report
             (report (newMissingDependency (er_Node ref) (action_uuid_of ref) (er_Reference ref)) s)
      else MissingDependencyCheck Check sa flow refs report s)"

text \<open>The issue reported for a reference, and a callback that collects the issues in
  the order of the calls.\<close>

definition issue_for :: "ExtractedReference \<Rightarrow> MissingDependency" where
  "issue_for ref = newMissingDependency (er_Node ref) (action_uuid_of ref) (er_Reference ref)"

definition collect :: "'a \<Rightarrow> 'a list \<Rightarrow> 'a list" where
  "collect x acc = acc @ [x]"

section \<open>The server asset source (package server)\<close>

type_synonym AssetType = string
type_synonym Header = "string \<rightharpoonup> string list"

text \<open>\<^verbatim>\<open>Header.Get\<close>: the first value stored under the key, the empty string when there is
  none. \<^verbatim>\<open>Header.Set\<close>: replaces the values stored under the key by the single value.
  The keys used here are in canonical form already.\<close>

definition Header_Get :: "Header \<Rightarrow> string \<Rightarrow> string" where
  "Header_Get h key = (case h key of None \<Rightarrow> [] | Some [] \<Rightarrow> [] | Some (v # vs) \<Rightarrow> v)"

definition Header_Set :: "Header \<Rightarrow> string \<Rightarrow> string \<Rightarrow> Header" where
  "Header_Set h key v = h(key \<mapsto> [v])"

record Request =
  req_Method :: string
  req_URL :: string
  req_Header :: Header

text \<open>A response: its status code (a Go \<^verbatim>\<open>int\<close>), its header, and what
  \<^verbatim>\<open>ioutil.ReadAll\<close> gives for its body (the bytes read and an error).\<close>

record Response =
  resp_StatusCode :: int
  resp_Header :: Header
  resp_ReadAll :: "string option \<times> error option"

text \<open>The verb \<^verbatim>\<open>%d\<close> of \<^verbatim>\<open>fmt\<close>: decimal digits, with a minus sign for a negative
  number.\<close>

definition digit_char :: "nat \<Rightarrow> char" where
  "digit_char d = ''0123456789'' ! d"

function show_nat :: "nat \<Rightarrow> string" where
  "show_nat n = (if n < 10 then [digit_char n] else show_nat (n div 10) @ [digit_char (n mod 10)])"
  by pat_completeness auto
termination
  by (relation "measure id") auto

declare show_nat.simps [simp del]

definition show_int :: "int \<Rightarrow> string" where
  "show_int i = (if i < 0 then CHR ''-'' # show_nat (nat (- i)) else show_nat (nat i))"

text \<open>The fields of \<^verbatim>\<open>ServerSource\<close> that \<^verbatim>\<open>fetchAsset\<close> reads: the token, and the HTTP
  client through its method \<^verbatim>\<open>Do\<close>, which gives a response or an error.\<close>

record ServerSource =
  authToken :: string
  httpClient_Do :: "Request \<Rightarrow> error + Response"

text \<open>The request with its header set:
  \<^verbatim>\<open>request.Header.Set("Authorization", fmt.Sprintf("Token %s", s.authToken))\<close>.\<close>

definition authorized :: "ServerSource \<Rightarrow> Request \<Rightarrow> Request" where
  "authorized s request =
     request\<lparr>req_Header := Header_Set (req_Header request) ''Authorization'' (''Token '' @ authToken s)\<rparr>"

text \<open>\<^verbatim>\<open>ServerSource.fetchAsset\<close>: the payload (nil on every error raised here) and the
  error. \<^verbatim>\<open>http.NewRequest\<close>, of the standard library, is the parameter \<open>NewRequest\<close>. The
  asset type is used for the debug log only.\<close>

definition fetchAsset ::
  "(string \<Rightarrow> string \<Rightarrow> error + Request) \<Rightarrow> ServerSource \<Rightarrow> string \<Rightarrow> AssetType \<Rightarrow>
     string option \<times> error option" where
  "fetchAsset NewRequest s url itemType =
     (case NewRequest ''GET'' url of
        Inl err \<Rightarrow> (None, Some err)
      | Inr request \<Rightarrow>
          (case httpClient_Do s (authorized s request) of
             Inl err \<Rightarrow> (None, Some err)
           | Inr response \<Rightarrow>
               if resp_StatusCode response \<noteq> 200
               then (None, Some (''request returned non-200 response ('' @
                                   show_int (resp_StatusCode response) @ '')''))
               else if Header_Get (resp_Header response) ''Content-Type'' \<noteq> ''application/json''
               then (None, Some ''request returned non-JSON response'')
               else resp_ReadAll response))"

text \<open>A request constructor that accepts every URL, and clients for the instances
  below: one that fails to connect, one that answers 404, one that answers 200 with an
  HTML body, and one that answers 200 with a JSON body.\<close>

definition plain_request :: "string \<Rightarrow> string \<Rightarrow> error + Request" where
  "plain_request method url = Inr \<lparr>req_Method = method, req_URL = url, req_Header = Map.empty\<rparr>"

definition refusing_source :: ServerSource where
  "refusing_source = \<lparr>authToken = ''secret'', httpClient_Do = (\<lambda>r. Inl ''connection refused'')\<rparr>"

definition not_found_source :: ServerSource where
  "not_found_source = \<lparr>authToken = ''secret'',
     httpClient_Do = (\<lambda>r. Inr \<lparr>resp_StatusCode = 404,
        resp_Header = [''Content-Type'' \<mapsto> [''application/json'']],
        resp_ReadAll = (Some ''{}'', None)\<rparr>)\<rparr>"

definition html_source :: ServerSource where
  "html_source = \<lparr>authToken = ''secret'',
     httpClient_Do = (\<lambda>r. Inr \<lparr>resp_StatusCode = 200,
        resp_Header = [''Content-Type'' \<mapsto> [''text/html'']],
        resp_ReadAll = (Some ''<html/>'', None)\<rparr>)\<rparr>"

definition json_source :: ServerSource where
  "json_source = \<lparr>authToken = ''secret'',
     httpClient_Do = (\<lambda>r. Inr \<lparr>resp_StatusCode = 200,
        resp_Header = [''Content-Type'' \<mapsto> [''application/json'']],
        resp_ReadAll = (Some ''{}'', None)\<rparr>)\<rparr>"

section \<open>The classifier action (\<^verbatim>\<open>flows/actions/call_classifier.go\<close>)\<close>

text \<open>Modelled from the spec: the constants \<^verbatim>\<open>CategorySuccess\<close>, \<^verbatim>\<open>CategorySkipped\<close>
  and \<^verbatim>\<open>CategoryFailure\<close> are declared outside the sources; they are the three
  categories "success", "skipped" and "failure" of a classification result.\<close>

datatype category = CategorySuccess | CategorySkipped | CategoryFailure

record ClassifierReference =
  cref_UUID :: string
  cref_Name :: string

text \<open>A classifier asset, through its method \<^verbatim>\<open>Reference()\<close>.\<close>

record Classifier =
  classifier_Reference :: ClassifierReference

record Intent =
  intent_Name :: string

record Classification =
  cl_Intents :: "Intent list"

type_synonym HTTPLog = string

text \<open>Modelled from the spec: the type \<^verbatim>\<open>flows.Result\<close> is declared outside the
  sources. A named result of a run has a value, a category, the input and extracted data;
  the node of the step and the creation time are left out.\<close>

record Result =
  result_Name :: string
  result_Value :: string
  result_Category :: category
  result_CategoryLocalized :: string
  result_Input :: string
  result_Extra :: "string option"

text \<open>The events that the action can log.\<close>

datatype event =
    Error error
  | ClassifierCalled ClassifierReference "HTTPLog list"
  | RunResultChanged Result

fun is_ClassifierCalled :: "event \<Rightarrow> bool" where
  "is_ClassifierCalled (ClassifierCalled r logs) = True"
| "is_ClassifierCalled e = False"

text \<open>What an execution acts on: the named results of the run and the events logged
  through the callback \<^verbatim>\<open>logEvent\<close>, oldest first.\<close>

record run_state =
  run_results :: "string \<rightharpoonup> Result"
  run_events :: "event list"

definition logEvent :: "event \<Rightarrow> run_state \<Rightarrow> run_state" where
  "logEvent e run = run\<lparr>run_events := run_events run @ [e]\<rparr>"

text \<open>What the action reads from the run, its session and the engine: the lookup of a
  classifier asset by UUID (nil when absent), the template evaluator (the best-effort
  output and an error), the classification service of a classifier (a service or an
  error), the call of the service (a classification, which can be nil, an error and the
  HTTP logs of the calls made), \<^verbatim>\<open>json.Marshal\<close> of a classification and
  \<^verbatim>\<open>ClassifierReference.String\<close>.\<close>

record 'svc session =
  Classifiers_Get :: "string \<Rightarrow> Classifier option"
  EvaluateTemplate :: "string \<Rightarrow> string \<times> error option"
  Services_Classification :: "Classifier \<Rightarrow> error + 'svc"
  svc_Classify :: "'svc \<Rightarrow> string \<Rightarrow> (Classification option \<times> error option) \<times> HTTPLog list"
  json_Marshal :: "Classification \<Rightarrow> string"
  Reference_String :: "ClassifierReference \<Rightarrow> string"

text \<open>The struct \<^verbatim>\<open>CallClassifierAction\<close>; the three fields are required.\<close>

record CallClassifierAction =
  act_Classifier :: ClassifierReference
  act_Input :: string
  act_ResultName :: string

text \<open>Modelled from the spec: \<^verbatim>\<open>baseAction.saveResult\<close> is declared outside the
  sources. It saves the result under its name in the results of the run; as it is handed
  the event callback, it records the saved result as an event.\<close>

definition saveResult ::
  "string \<Rightarrow> string \<Rightarrow> category \<Rightarrow> string \<Rightarrow> string \<Rightarrow> string option \<Rightarrow> run_state \<Rightarrow> run_state"
  where
  "saveResult name value cat categoryLocalized input extra run =
     (let result = \<lparr>result_Name = name, result_Value = value, result_Category = cat,
                     result_CategoryLocalized = categoryLocalized, result_Input = input,
                     result_Extra = extra\<rparr>
      in logEvent (RunResultChanged result) (run\<lparr>run_results := (run_results run)(name \<mapsto> result)\<rparr>))"

definition saveSkipped :: "CallClassifierAction \<Rightarrow> string \<Rightarrow> run_state \<Rightarrow> run_state" where
  "saveSkipped a input run = saveResult (act_ResultName a) ''0'' CategorySkipped [] input None run"

definition saveFailure :: "CallClassifierAction \<Rightarrow> string \<Rightarrow> run_state \<Rightarrow> run_state" where
  "saveFailure a input run = saveResult (act_ResultName a) ''0'' CategoryFailure [] input None run"

text \<open>\<^verbatim>\<open>saveSuccess\<close>: the value is the name of the first intent, if there is one.\<close>

definition saveSuccess ::
  "'svc session \<Rightarrow> CallClassifierAction \<Rightarrow> string \<Rightarrow> Classification \<Rightarrow> run_state \<Rightarrow> run_state"
  where
  "saveSuccess env a input classification run =
     (let value = (case cl_Intents classification of [] \<Rightarrow> [] | i # is \<Rightarrow> intent_Name i);
          extra = json_Marshal env classification
      in saveResult (act_ResultName a) value CategorySuccess [] input (Some extra) run)"

text \<open>\<^verbatim>\<open>classify\<close>: the classification, whether it was skipped, and the error.\<close>

definition classify ::
  "'svc session \<Rightarrow> CallClassifierAction \<Rightarrow> string \<Rightarrow> Classifier option \<Rightarrow> run_state \<Rightarrow>
     (Classification option \<times> bool \<times> error option) \<times> run_state" where
  "classify env a input classifier run =
     (if input = [] then
        ((None, True,
          Some (''can'' @ [CHR 0x27] @ ''t classify empty input, skipping classification'')), run)
      else case classifier of
        None \<Rightarrow> ((None, False, Some (''missing '' @ Reference_String env (act_Classifier a))), run)
      | Some cl \<Rightarrow>
          (case Services_Classification env cl of
             Inl err \<Rightarrow> ((None, False, Some err), run)
           | Inr svc \<Rightarrow>
               (case svc_Classify env svc input of
                  ((classification, err), logs) \<Rightarrow>
                    ((classification, False, err),
                     (if length logs > 0
                      then logEvent (ClassifierCalled (classifier_Reference cl) logs) run
                      else run)))))"

text \<open>How a call ends: it returns its error value, or it panics (here: on dereferencing
  a nil classification).\<close>

datatype outcome = Returned "error option" | Panicked

text \<open>\<^verbatim>\<open>CallClassifierAction.Execute\<close>.\<close>

definition Execute ::
  "'svc session \<Rightarrow> CallClassifierAction \<Rightarrow> run_state \<Rightarrow> outcome \<times> run_state" where
  "Execute env a run =
     (let classifier = Classifiers_Get env (cref_UUID (act_Classifier a)) in
      case EvaluateTemplate env (act_Input a) of
        (input, err) \<Rightarrow>
          (let run1 = (case err of Some e \<Rightarrow> logEvent (Error e) run | None \<Rightarrow> run) in
           case classify env a input classifier run1 of
             ((classification, skipped, err2), run2) \<Rightarrow>
               (case err2 of
                  Some e \<Rightarrow>
                    (let run3 = logEvent (Error e) run2 in
                     if skipped then (Returned None, saveSkipped a input run3)
                     else (Returned None, saveFailure a input run3))
                | None \<Rightarrow>
                    (case classification of
                       None \<Rightarrow> (Panicked, run2)
                     | Some cl \<Rightarrow> (Returned None, saveSuccess env a input cl run2)))))"

text \<open>The result that \<^verbatim>\<open>saveSkipped\<close> and \<^verbatim>\<open>saveFailure\<close> save.\<close>

definition categorized_result :: "CallClassifierAction \<Rightarrow> category \<Rightarrow> string \<Rightarrow> Result" where
  "categorized_result a cat input =
     \<lparr>result_Name = act_ResultName a, result_Value = ''0'', result_Category = cat,
      result_CategoryLocalized = [], result_Input = input, result_Extra = None\<rparr>"

text \<open>The events logged for the error of the template evaluator.\<close>

definition template_events :: "error option \<Rightarrow> event list" where
  "template_events err = (case err of None \<Rightarrow> [] | Some e \<Rightarrow> [Error e])"

text \<open>An action, a fresh run and two sessions for the instances below: in the first
  the template evaluates to the empty string (with an error), in the second to a text;
  neither has a classifier asset.\<close>

definition booking_action :: CallClassifierAction where
  "booking_action = \<lparr>act_Classifier = \<lparr>cref_UUID = ''1c06c884'', cref_Name = ''Booking''\<rparr>,
      act_Input = ''@input.text'', act_ResultName = ''Intent''\<rparr>"

definition fresh_run :: run_state where
  "fresh_run = \<lparr>run_results = Map.empty, run_events = []\<rparr>"

definition no_assets_session :: "string \<Rightarrow> error option \<Rightarrow> unit session" where
  "no_assets_session input err =
     \<lparr>Classifiers_Get = (\<lambda>u. None), EvaluateTemplate = (\<lambda>t. (input, err)),
      Services_Classification = (\<lambda>c. Inl ''no classification service''),
      svc_Classify = (\<lambda>svc i. ((None, Some ''unreachable''), [])),
      json_Marshal = (\<lambda>c. ''{}''),
      Reference_String = (\<lambda>r. ''classifier[uuid='' @ cref_UUID r @ '',name='' @ cref_Name r @ '']'')\<rparr>"

section \<open>Channel resolution\<close>

text \<open>
  The sources hold the tests of \<^verbatim>\<open>ChannelAssets.GetForURN\<close>, not the function. The data
  are as the tests build them; the function is modelled from section 4.3 of the
  specification, where it is called \<^verbatim>\<open>ResolveChannel\<close>.
\<close>

type_synonym ChannelUUID = string

datatype ChannelRole = ChannelRoleSend | ChannelRoleReceive | ChannelRoleCall | ChannelRoleAnswer

text \<open>A channel as \<^verbatim>\<open>test.NewChannel\<close> and \<^verbatim>\<open>test.NewTelChannel\<close> declare it. The
  delegation relation \<open>ch_Parent\<close> is the UUID of the channel it delegates for, \<open>None\<close> for
  \<^verbatim>\<open>assets.NilChannelUUID\<close>; the country is empty when not declared.\<close>

record Channel =
  ch_UUID :: ChannelUUID
  ch_Name :: string
  ch_Address :: string
  ch_Schemes :: "string list"
  ch_Roles :: "ChannelRole list"
  ch_Parent :: "ChannelUUID option"
  ch_Country :: string
  ch_MatchPrefixes :: "string list"

text \<open>\<^verbatim>\<open>flows.NewContactURN(urn, channel)\<close>: a URN and the channel it is bound to, if
  any.\<close>

record ContactURN =
  urn_URN :: URN
  urn_Channel :: "Channel option"

text \<open>Modelled from the spec: a URN is a scheme-qualified identity such as a phone number
  with the scheme \<^verbatim>\<open>tel\<close>; the type \<^verbatim>\<open>urns.URN\<close> comes from a library that is not under
  the sources. The scheme is what stands before the first colon.\<close>

definition Scheme :: "URN \<Rightarrow> string" where
  "Scheme u = takeWhile (\<lambda>c. c \<noteq> CHR '':'') u"

text \<open>Modelled from the spec: the path of a URN, not under the sources either, is what
  stands after the first colon.\<close>

definition Path :: "URN \<Rightarrow> string" where
  "Path u = drop 1 (dropWhile (\<lambda>c. c \<noteq> CHR '':'') u)"

text \<open>Modelled from the spec: the digits of a number or an address, for rules 4 and 5 of
  \<^verbatim>\<open>GetForURN\<close>, which is not under the sources: a leading plus sign is dropped.\<close>

definition strip_plus :: "string \<Rightarrow> string" where
  "strip_plus s = (case s of [] \<Rightarrow> [] | c # r \<Rightarrow> if c = CHR ''+'' then r else s)"

text \<open>Modelled from the spec: \<^verbatim>\<open>Channel.HasRole\<close> is not under the sources; a channel
  has a set of roles.\<close>

definition HasRole :: "Channel \<Rightarrow> ChannelRole \<Rightarrow> bool" where
  "HasRole ch role = (role \<in> set (ch_Roles ch))"

text \<open>Modelled from the spec: membership in the scheme set of a channel (rule 2 of
  \<^verbatim>\<open>GetForURN\<close>, which is not under the sources).\<close>

definition SupportsScheme :: "Channel \<Rightarrow> string \<Rightarrow> bool" where
  "SupportsScheme ch scheme = (scheme \<in> set (ch_Schemes ch))"

text \<open>Modelled from the spec: the delegation relation of rule 6 of \<^verbatim>\<open>GetForURN\<close>, which
  is not under the sources. A channel delegates for another when it declares the UUID of
  the other as its parent: an identity lookup, not a pointer.\<close>

definition delegates_for :: "Channel \<Rightarrow> Channel \<Rightarrow> bool" where
  "delegates_for d ch = (ch_Parent d = Some (ch_UUID ch))"

text \<open>Modelled from the spec: rule 6, delegation; the function that substitutes a delegate
  is not under the sources. A channel that declares a delegation relation to the selected
  one and has the required role is substituted for it (the first declared, if several
  do); otherwise the selection stays.\<close>

definition getDelegate :: "Channel list \<Rightarrow> Channel \<Rightarrow> ChannelRole \<Rightarrow> Channel" where
  "getDelegate all ch role =
     (case find (\<lambda>d. delegates_for d ch \<and> HasRole d role) all of
        Some d \<Rightarrow> d
      | None \<Rightarrow> ch)"

text \<open>Modelled from the spec: the choice of rule 5 of \<^verbatim>\<open>GetForURN\<close>, which is not under
  the sources. Among scored candidates in declaration order, the one with the greatest
  score; with equal scores the one declared later.\<close>

fun pick_best :: "('a \<times> nat) list \<Rightarrow> ('a \<times> nat) option \<Rightarrow> ('a \<times> nat) option" where
  "pick_best [] best = best"
| "pick_best ((c, n) # rest) best =
     pick_best rest
       (case best of
          None \<Rightarrow> Some (c, n)
        | Some (b, m) \<Rightarrow> if m \<le> n then Some (c, n) else Some (b, m))"

text \<open>Modelled from the spec: rule 4 of \<^verbatim>\<open>GetForURN\<close>, which is not under the sources. A
  declared prefix matches when it is a literal prefix of the number.\<close>

definition matching_prefixes :: "Channel \<Rightarrow> string \<Rightarrow> string list" where
  "matching_prefixes ch number = filter (\<lambda>p. take (length p) number = p) (ch_MatchPrefixes ch)"

text \<open>Modelled from the spec: rule 4 of \<^verbatim>\<open>GetForURN\<close>. A candidate is scored by the
  length of its longest matching prefix; candidates without a matching prefix are left
  out.\<close>

definition prefix_scores :: "Channel list \<Rightarrow> string \<Rightarrow> (Channel \<times> nat) list" where
  "prefix_scores candidates number =
     map (\<lambda>ch. (ch, fold max (map length (matching_prefixes ch number)) 0))
       (filter (\<lambda>ch. matching_prefixes ch number \<noteq> []) candidates)"

text \<open>Modelled from the spec: rule 4 of \<^verbatim>\<open>GetForURN\<close>. The longest matching prefix wins.
  The spec does not say which of two candidates with equally long matching prefixes wins;
  the later one is taken, as in rule 5.\<close>

definition prefix_match :: "Channel list \<Rightarrow> string \<Rightarrow> Channel option" where
  "prefix_match candidates number = map_option fst (pick_best (prefix_scores candidates number) None)"

text \<open>Modelled from the spec: the digits of rule 5 of \<^verbatim>\<open>GetForURN\<close>, which is not under
  the sources.\<close>

definition is_digit :: "char \<Rightarrow> bool" where
  "is_digit c = (c \<in> set ''0123456789'')"

text \<open>Modelled from the spec: rule 5 of \<^verbatim>\<open>GetForURN\<close>. The length of the longest run of
  leading digits that two strings have in common.\<close>

fun overlap :: "string \<Rightarrow> string \<Rightarrow> nat" where
  "overlap (a # as) (b # bs) = (if a = b \<and> is_digit a then Suc (overlap as bs) else 0)"
| "overlap as bs = 0"

text \<open>Modelled from the spec: rule 5 of \<^verbatim>\<open>GetForURN\<close>. Each candidate is scored by the
  overlap of its address with the number.\<close>

definition overlap_scores :: "Channel list \<Rightarrow> string \<Rightarrow> (Channel \<times> nat) list" where
  "overlap_scores candidates number =
     map (\<lambda>ch. (ch, overlap (strip_plus (ch_Address ch)) number)) candidates"

text \<open>Modelled from the spec: rule 5 of \<^verbatim>\<open>GetForURN\<close>. The greatest overlap wins, the
  candidate added most recently among equal ones.\<close>

definition overlap_match :: "Channel list \<Rightarrow> string \<Rightarrow> Channel option" where
  "overlap_match candidates number =
     map_option fst (pick_best (overlap_scores candidates number) None)"

text \<open>Modelled from the spec: rule 1 of \<^verbatim>\<open>GetForURN\<close>, the pinned affinity. If the URN carries a channel and
  that channel, or the delegate substituted for it, has the required role, that is the
  result.\<close>

definition pinned_affinity :: "Channel list \<Rightarrow> ContactURN \<Rightarrow> ChannelRole \<Rightarrow> Channel option" where
  "pinned_affinity all urn role =
     (case urn_Channel urn of
        None \<Rightarrow> None
      | Some ch \<Rightarrow>
          (let d = getDelegate all ch role in if HasRole d role then Some d else None))"

text \<open>Modelled from the spec: rules 2 to 5 of \<^verbatim>\<open>GetForURN\<close>, the selection of a candidate. The candidates
  are the channels with the scheme of the URN (rule 2); a single candidate is selected as
  it is (rule 3); otherwise the explicit prefixes decide (rule 4), or else the overlap
  (rule 5).\<close>

definition select_candidate :: "Channel list \<Rightarrow> ContactURN \<Rightarrow> Channel option" where
  "select_candidate all urn =
     (let candidates = filter (\<lambda>ch. SupportsScheme ch (Scheme (urn_URN urn))) all;
          number = strip_plus (Path (urn_URN urn))
      in case candidates of
           [] \<Rightarrow> None
         | [ch] \<Rightarrow> Some ch
         | _ \<Rightarrow>
             (case prefix_match candidates number of
                Some ch \<Rightarrow> Some ch
              | None \<Rightarrow> overlap_match candidates number))"

text \<open>Modelled from the spec: \<^verbatim>\<open>ResolveChannel(urn, requiredRole)\<close>, which the tests call
  \<^verbatim>\<open>GetForURN\<close> and which is not under the sources. The first rule that applies wins; the selection of rules 2 to 5 passes
  through the delegation (rule 6), and a final selection without the required role gives
  none.\<close>

definition GetForURN :: "Channel list \<Rightarrow> ContactURN \<Rightarrow> ChannelRole \<Rightarrow> Channel option" where
  "GetForURN all urn role =
     (case pinned_affinity all urn role of
        Some ch \<Rightarrow> Some ch
      | None \<Rightarrow>
          (case select_candidate all urn of
             None \<Rightarrow> None
           | Some ch \<Rightarrow>
               (let final = getDelegate all ch role
                in if HasRole final role then Some final else None)))"

subsection \<open>The channels of the test TestChannelSetGetForURN\<close>

definition rolesSend :: "ChannelRole list" where
  "rolesSend = [ChannelRoleSend]"

definition rolesDefault :: "ChannelRole list" where
  "rolesDefault = [ChannelRoleSend, ChannelRoleReceive]"

definition NewChannel ::
  "ChannelUUID \<Rightarrow> string \<Rightarrow> string \<Rightarrow> string list \<Rightarrow> ChannelRole list \<Rightarrow> ChannelUUID option \<Rightarrow> Channel"
  where
  "NewChannel uuid name address schemes roles parent =
     \<lparr>ch_UUID = uuid, ch_Name = name, ch_Address = address, ch_Schemes = schemes,
      ch_Roles = roles, ch_Parent = parent, ch_Country = [], ch_MatchPrefixes = []\<rparr>"

definition NewTelChannel ::
  "ChannelUUID \<Rightarrow> string \<Rightarrow> string \<Rightarrow> ChannelRole list \<Rightarrow> ChannelUUID option \<Rightarrow> string \<Rightarrow>
     string list \<Rightarrow> Channel" where
  "NewTelChannel uuid name address roles parent country matchPrefixes =
     \<lparr>ch_UUID = uuid, ch_Name = name, ch_Address = address, ch_Schemes = [''tel''],
      ch_Roles = roles, ch_Parent = parent, ch_Country = country,
      ch_MatchPrefixes = matchPrefixes\<rparr>"

definition claro :: Channel where
  "claro = NewTelChannel ''uuid-claro'' ''Claro'' ''+593971111111'' rolesDefault None ''EC'' []"

definition mtn :: Channel where
  "mtn = NewTelChannel ''uuid-mtn'' ''MTN'' ''+250782222222'' rolesDefault None ''RW'' []"

definition tigo :: Channel where
  "tigo = NewTelChannel ''uuid-tigo'' ''Tigo'' ''+250723333333'' rolesDefault None ''RW'' []"

definition twitter :: Channel where
  "twitter = NewChannel ''uuid-twitter'' ''Twitter'' ''nyaruka'' [''twitter'', ''twitterid'']
               rolesDefault None"

definition android :: Channel where
  "android = NewChannel ''uuid-android'' ''Android'' ''+250723333333'' [''tel''] rolesDefault None"

definition bulk :: Channel where
  "bulk = NewChannel ''uuid-bulk'' ''Bulk Sender'' ''1234'' [''tel''] rolesSend (Some ''uuid-android'')"

definition short1 :: Channel where
  "short1 = NewTelChannel ''uuid-short1'' ''Shortcode 1'' ''1234'' rolesSend None ''RW''
              [''25078'', ''25077'']"

definition short2 :: Channel where
  "short2 = NewTelChannel ''uuid-short2'' ''Shortcode 2'' ''1235'' rolesSend None ''RW'' [''25072'']"

definition NewContactURN :: "URN \<Rightarrow> Channel option \<Rightarrow> ContactURN" where
  "NewContactURN u ch = \<lparr>urn_URN = u, urn_Channel = ch\<rparr>"

section \<open>Properties of contacts\<close>

text \<open>The loop of \<^verbatim>\<open>RemoveGroup\<close> in terms of list functions: the entries before the
  first one with the UUID, then the entries after it.\<close>

lemma RemoveGroup_loop_char:
  "RemoveGroup_loop c uuid i =
     (let gs = elems (contact_groups c); rest = drop i gs in
      if uuid \<in> group_uuid ` set rest
      then (c\<lparr>contact_groups :=
               Some (take i gs @ takeWhile (\<lambda>g. group_uuid g \<noteq> uuid) rest
                       @ tl (dropWhile (\<lambda>g. group_uuid g \<noteq> uuid) rest))\<rparr>, True)
      else (c, False))"
proof (induction c uuid i rule: RemoveGroup_loop.induct)
  case (1 c uuid i)
  let ?gs = "elems (contact_groups c)"
  show ?case
  proof (cases "i < length ?gs")
    case False
    then show ?thesis
      by (subst RemoveGroup_loop.simps) (simp add: Let_def)
  next
    case True
    then have d: "drop i ?gs = ?gs ! i # drop (Suc i) ?gs"
      by (simp add: Cons_nth_drop_Suc)
    show ?thesis
    proof (cases "group_uuid (?gs ! i) = uuid")
      case hit: True
      with True d show ?thesis
        by (subst RemoveGroup_loop.simps) (simp add: Let_def)
    next
      case miss: False
      have t: "take (Suc i) ?gs = take i ?gs @ [?gs ! i]"
        using True by (simp add: take_Suc_conv_app_nth)
      from True miss have "RemoveGroup_loop c uuid i = RemoveGroup_loop c uuid (i + 1)"
        by (subst RemoveGroup_loop.simps) (simp add: Let_def)
      also have "\<dots> = (let gs = ?gs; rest = drop (i + 1) gs in
        if uuid \<in> group_uuid ` set rest
        then (c\<lparr>contact_groups :=
               Some (take (i + 1) gs @ takeWhile (\<lambda>g. group_uuid g \<noteq> uuid) rest
                       @ tl (dropWhile (\<lambda>g. group_uuid g \<noteq> uuid) rest))\<rparr>, True)
        else (c, False))"
        using "1.IH" [OF refl True miss] .
      finally show ?thesis
        using miss d t by (simp add: Let_def)
    qed
  qed
qed

lemma RemoveGroup_char:
  "RemoveGroup c uuid =
     (let gs = elems (contact_groups c) in
      if uuid \<in> group_uuid ` set gs
      then (c\<lparr>contact_groups :=
               Some (takeWhile (\<lambda>g. group_uuid g \<noteq> uuid) gs
                       @ tl (dropWhile (\<lambda>g. group_uuid g \<noteq> uuid) gs))\<rparr>, True)
      else (c, False))"
  by (simp add: RemoveGroup_def RemoveGroup_loop_char Let_def)

text \<open>
  Claim C9. If the UUID is not among the memberships of the contact, \<^verbatim>\<open>RemoveGroup\<close>
  returns false and the contact is unchanged, in its groups and in everything else. If it
  is, \<^verbatim>\<open>RemoveGroup\<close> returns true, and the contact differs only in its group list, from
  which the first membership with that UUID has been removed: the entries before it and
  after it stay, in order.
\<close>

theorem RemoveGroup_spec:
  "(uuid \<notin> set (group_uuids c) \<longrightarrow> RemoveGroup c uuid = (c, False)) \<and>
   (uuid \<in> set (group_uuids c) \<longrightarrow>
      (\<exists>pre g post. elems (contact_groups c) = pre @ g # post \<and> group_uuid g = uuid \<and>
          uuid \<notin> group_uuid ` set pre \<and>
          RemoveGroup c uuid = (c\<lparr>contact_groups := Some (pre @ post)\<rparr>, True)))"
proof (intro conjI impI)
  assume "uuid \<notin> set (group_uuids c)"
  then show "RemoveGroup c uuid = (c, False)"
    by (simp add: RemoveGroup_char group_uuids_def Let_def)
next
  let ?gs = "elems (contact_groups c)"
  let ?P = "\<lambda>g. group_uuid g \<noteq> uuid"
  assume m: "uuid \<in> set (group_uuids c)"
  then have ex: "\<exists>g\<in>set ?gs. \<not> ?P g"
    by (auto simp: group_uuids_def)
  then have ne: "dropWhile ?P ?gs \<noteq> []"
    by simp
  then have split: "?gs = takeWhile ?P ?gs @ hd (dropWhile ?P ?gs) # tl (dropWhile ?P ?gs)"
    by simp
  have hit: "group_uuid (hd (dropWhile ?P ?gs)) = uuid"
    using ne hd_dropWhile [of ?P ?gs] by simp
  have pre: "uuid \<notin> group_uuid ` set (takeWhile ?P ?gs)"
    by (auto dest: set_takeWhileD)
  have res: "RemoveGroup c uuid =
      (c\<lparr>contact_groups := Some (takeWhile ?P ?gs @ tl (dropWhile ?P ?gs))\<rparr>, True)"
    using m by (simp add: RemoveGroup_char group_uuids_def Let_def)
  show "\<exists>pre g post. ?gs = pre @ g # post \<and> group_uuid g = uuid \<and>
          uuid \<notin> group_uuid ` set pre \<and>
          RemoveGroup c uuid = (c\<lparr>contact_groups := Some (pre @ post)\<rparr>, True)"
    using split hit pre res by blast
qed

text \<open>An instance of C9 on a contact with the groups g1 and g2: removing g9 finds nothing,
  removing g1 leaves g2.\<close>

theorem RemoveGroup_spec_witness:
  "''g9'' \<notin> set (group_uuids member_contact) \<and>
   RemoveGroup member_contact ''g9'' = (member_contact, False) \<and>
   ''g1'' \<in> set (group_uuids member_contact) \<and>
   RemoveGroup member_contact ''g1'' =
     (member_contact\<lparr>contact_groups :=
        Some [\<lparr>group_uuid = ''g2'', group_name = ''Testers''\<rparr>]\<rparr>, True)"
proof -
  have n: "''g9'' \<notin> set (group_uuids member_contact)"
    and m: "''g1'' \<in> set (group_uuids member_contact)"
    by (simp_all add: member_contact_def group_uuids_def elems_def)
  from RemoveGroup_spec [of "''g9''" member_contact] n
  have 1: "RemoveGroup member_contact ''g9'' = (member_contact, False)" by blast
  from RemoveGroup_spec [of "''g1''" member_contact] m
  obtain pre g post where s: "elems (contact_groups member_contact) = pre @ g # post"
    and g: "group_uuid g = ''g1''" and p: "''g1'' \<notin> group_uuid ` set pre"
    and r: "RemoveGroup member_contact ''g1'' =
      (member_contact\<lparr>contact_groups := Some (pre @ post)\<rparr>, True)"
    by blast
  from s p have "pre = []"
    by (cases pre) (auto simp: member_contact_def elems_def)
  with s have "post = [\<lparr>group_uuid = ''g2'', group_name = ''Testers''\<rparr>]"
    by (simp add: member_contact_def elems_def)
  with r \<open>pre = []\<close> have 2: "RemoveGroup member_contact ''g1'' =
     (member_contact\<lparr>contact_groups :=
        Some [\<lparr>group_uuid = ''g2'', group_name = ''Testers''\<rparr>]\<rparr>, True)"
    by simp
  from n m 1 2 show ?thesis by simp
qed

text \<open>The UUIDs of the memberships under each operation.\<close>

lemma group_uuids_AddGroup: "group_uuids (AddGroup c uuid name) = group_uuids c @ [uuid]"
  by (simp add: group_uuids_def AddGroup_def elems_def)

lemma group_uuids_SetName: "group_uuids (SetName c name) = group_uuids c"
  by (simp add: group_uuids_def SetName_def)

lemma group_uuids_SetLanguage: "group_uuids (SetLanguage c lang) = group_uuids c"
  by (simp add: group_uuids_def SetLanguage_def)

lemma distinct_RemoveGroup:
  assumes "distinct (group_uuids c)"
  shows "distinct (group_uuids (fst (RemoveGroup c uuid)))"
proof -
  define pre where "pre = takeWhile (\<lambda>g. group_uuid g \<noteq> uuid) (elems (contact_groups c))"
  define rest where "rest = dropWhile (\<lambda>g. group_uuid g \<noteq> uuid) (elems (contact_groups c))"
  have "elems (contact_groups c) = pre @ rest"
    by (simp add: pre_def rest_def)
  with assms have "distinct (map group_uuid (pre @ rest))"
    by (simp only: group_uuids_def)
  then have "distinct (map group_uuid (pre @ tl rest))"
    by (cases rest) auto
  then have "distinct (group_uuids (c\<lparr>contact_groups := Some (pre @ tl rest)\<rparr>))"
    by (simp add: group_uuids_def elems_def)
  with assms show ?thesis
    by (simp add: RemoveGroup_char Let_def pre_def rest_def)
qed

lemma distinct_apply_contact_op:
  assumes "distinct (group_uuids c)"
    and "case x of OpAddGroup uuid name \<Rightarrow> uuid \<notin> set (group_uuids c) | _ \<Rightarrow> True"
  shows "distinct (group_uuids (apply_contact_op c x))"
  using assms
  by (cases x)
    (simp_all add: group_uuids_AddGroup group_uuids_SetName group_uuids_SetLanguage
      distinct_RemoveGroup)

text \<open>
  Claim C8, as the code has it. \<^verbatim>\<open>AddGroup\<close> appends without looking at the list, so
  uniqueness is kept only when the caller adds no UUID that is already a member: starting
  from a contact whose memberships have pairwise distinct UUIDs, every sequence of
  \<^verbatim>\<open>SetLanguage\<close>, \<^verbatim>\<open>SetName\<close>, \<^verbatim>\<open>RemoveGroup\<close> and such \<^verbatim>\<open>AddGroup\<close> calls ends in a
  contact whose memberships have pairwise distinct UUIDs.
\<close>

theorem groups_stay_unique:
  "distinct (group_uuids c) \<Longrightarrow> adds_only_new c ops \<Longrightarrow>
     distinct (group_uuids (apply_contact_ops c ops))"
proof (induction ops arbitrary: c)
  case Nil
  then show ?case by simp
next
  case (Cons x xs)
  from Cons.prems have "distinct (group_uuids (apply_contact_op c x))"
    by (intro distinct_apply_contact_op) simp_all
  with Cons show ?case by simp
qed

text \<open>An instance: g1 is added, removed and added again.\<close>

theorem groups_stay_unique_witness:
  "distinct (group_uuids new_contact) \<and> adds_only_new new_contact sample_ops \<and>
   group_uuids (apply_contact_ops new_contact sample_ops) = [''g2'', ''g1''] \<and>
   distinct (group_uuids (apply_contact_ops new_contact sample_ops))"
proof -
  have d: "distinct (group_uuids new_contact)"
    by (simp add: new_contact_def group_uuids_def elems_def)
  have a: "adds_only_new new_contact sample_ops"
    by (simp add: new_contact_def sample_ops_def group_uuids_def elems_def AddGroup_def
        SetName_def RemoveGroup_char)
  have v: "group_uuids (apply_contact_ops new_contact sample_ops) = [''g2'', ''g1'']"
    by (simp add: new_contact_def sample_ops_def group_uuids_def elems_def AddGroup_def
        SetName_def RemoveGroup_char)
  from d a v groups_stay_unique [OF d a] show ?thesis by simp
qed

text \<open>Claim C8 as stated fails: adding the group g1 twice to a contact without groups
  gives two memberships with the UUID g1.\<close>

theorem AddGroup_twice_counterexample:
  "\<not> distinct (group_uuids (apply_contact_ops new_contact
      [OpAddGroup ''g1'' ''Customers'', OpAddGroup ''g1'' ''Customers'']))"
  by (simp add: new_contact_def group_uuids_def AddGroup_def elems_def)

section \<open>Properties of decoding a contact\<close>

text \<open>
  Claim C10. Decoding a well-formed contact document succeeds, and the decoded contact has
  a non-nil URN list, a non-nil group list and non-nil fields, whatever the document holds.
  Where the member \<^verbatim>\<open>urns\<close> is absent or null the URN list is the empty list, where the
  member \<^verbatim>\<open>groups\<close> is absent or null the group list is the empty list, and where the
  member \<^verbatim>\<open>fields\<close> is absent or null the fields are a new \<^verbatim>\<open>Fields\<close> value without
  entries, so \<^verbatim>\<open>URNs()\<close>, \<^verbatim>\<open>Groups()\<close> and \<^verbatim>\<open>Fields()\<close> never give nil.
\<close>

theorem ReadContact_never_nil:
  "ReadContact (Inr d) = (c, err) \<Longrightarrow>
     err = None \<and>
     URNs c \<noteq> None \<and> Groups c \<noteq> None \<and> Fields c \<noteq> None \<and>
     (doc_urns d = Absent \<or> doc_urns d = Null \<longrightarrow> URNs c = Some []) \<and>
     (doc_groups d = Absent \<or> doc_groups d = Null \<longrightarrow> Groups c = Some []) \<and>
     (doc_fields d = Absent \<or> doc_fields d = Null \<longrightarrow>
        Fields c = Some NewFields \<and> dom (the (Fields c)) = {})"
  by (auto simp: ReadContact_def UnmarshalJSON_def json_Unmarshal_def nilable_field_def
      URNs_def Groups_def Fields_def NewFields_def split: member.splits)

text \<open>An instance of C10: a document whose \<^verbatim>\<open>urns\<close> and \<^verbatim>\<open>fields\<close> are null and whose
  \<^verbatim>\<open>groups\<close> is an empty array.\<close>

theorem ReadContact_never_nil_witness:
  "ReadContact (Inr null_document) =
     (\<lparr>contact_uuid = ''c1'', contact_name = [], contact_language = [],
       contact_urns = Some [], contact_groups = Some [], contact_fields = Some Map.empty\<rparr>, None) \<and>
   doc_urns null_document = Null \<and> doc_fields null_document = Null \<and>
   URNs (fst (ReadContact (Inr null_document))) = Some [] \<and>
   Groups (fst (ReadContact (Inr null_document))) = Some [] \<and>
   Fields (fst (ReadContact (Inr null_document))) = Some NewFields \<and>
   dom (the (Fields (fst (ReadContact (Inr null_document))))) = {} \<and>
   ReadContact (Inr minimal_document) =
     (\<lparr>contact_uuid = ''c1'', contact_name = ''Ann'', contact_language = [],
       contact_urns = Some [], contact_groups = Some [], contact_fields = Some Map.empty\<rparr>, None) \<and>
   doc_groups minimal_document = Absent \<and>
   Groups (fst (ReadContact (Inr minimal_document))) = Some []"
proof -
  have r: "ReadContact (Inr null_document) =
     (\<lparr>contact_uuid = ''c1'', contact_name = [], contact_language = [],
       contact_urns = Some [], contact_groups = Some [], contact_fields = Some Map.empty\<rparr>, None)"
    by (simp add: ReadContact_def UnmarshalJSON_def json_Unmarshal_def nilable_field_def
        string_field_def null_document_def zero_Contact_def NewFields_def)
  have n: "doc_urns null_document = Null" "doc_fields null_document = Null"
    by (simp_all add: null_document_def)
  have m: "ReadContact (Inr minimal_document) =
     (\<lparr>contact_uuid = ''c1'', contact_name = ''Ann'', contact_language = [],
       contact_urns = Some [], contact_groups = Some [], contact_fields = Some Map.empty\<rparr>, None)"
    by (simp add: ReadContact_def UnmarshalJSON_def json_Unmarshal_def nilable_field_def
        string_field_def minimal_document_def zero_Contact_def NewFields_def)
  have a: "doc_groups minimal_document = Absent"
    by (simp add: minimal_document_def)
  from ReadContact_never_nil [OF r] ReadContact_never_nil [OF m] n a r m show ?thesis
    by (simp add: Groups_def URNs_def Fields_def NewFields_def)
qed

section \<open>Properties of the missing dependency check\<close>

text \<open>The loop as a filter followed by a map, whatever the callback does.\<close>

lemma MissingDependencyCheck_fold:
  "MissingDependencyCheck Check sa flow refs report s =
     fold report (map issue_for (filter (\<lambda>ref. \<not> Check sa ref) refs)) s"
  by (induction refs arbitrary: s) (simp_all add: issue_for_def)

text \<open>
  Claim C7. The check calls \<^verbatim>\<open>report\<close> once for each reference whose \<^verbatim>\<open>Check\<close> fails,
  in the order of the list, and never for a reference whose \<^verbatim>\<open>Check\<close> succeeds: the
  issues collected are the issues of the failing references, one each. The issue of a
  reference has the type \<^verbatim>\<open>missing_dependency\<close>, carries the reference (its asset type and
  identity, which the description names too), the UUID of its node and the UUID of its
  action, empty when the reference has no action. Nothing but the callback changes state:
  with a callback that does nothing the state is unchanged.
\<close>

theorem MissingDependencyCheck_spec:
  "MissingDependencyCheck Check sa flow refs report s =
     fold report (map issue_for (filter (\<lambda>ref. \<not> Check sa ref) refs)) s \<and>
   MissingDependencyCheck Check sa flow refs collect [] =
     map issue_for (filter (\<lambda>ref. \<not> Check sa ref) refs) \<and>
   length (MissingDependencyCheck Check sa flow refs collect []) =
     length (filter (\<lambda>ref. \<not> Check sa ref) refs) \<and>
   MissingDependencyCheck Check sa flow refs (\<lambda>issue st. st) s = s \<and>
   issue_Type (issue_for ref) = ''missing_dependency'' \<and>
   issue_Dependency (issue_for ref) = er_Reference ref \<and>
   issue_NodeUUID (issue_for ref) = er_Node ref \<and>
   issue_ActionUUID (issue_for ref) = (case er_Action ref of None \<Rightarrow> [] | Some u \<Rightarrow> u) \<and>
   issue_Description (issue_for ref) =
     ''missing '' @ ref_Type (er_Reference ref) @ '' dependency '' @ [CHR 0x27] @
       ref_Identity (er_Reference ref) @ [CHR 0x27]"
proof -
  have c: "fold collect xs acc = acc @ xs" for xs acc :: "'x list"
    by (induction xs arbitrary: acc) (simp_all add: collect_def)
  have n: "fold (\<lambda>issue st. st) xs s = s" for xs :: "MissingDependency list"
    by (induction xs) simp_all
  show ?thesis
    by (simp add: MissingDependencyCheck_fold c n issue_for_def newMissingDependency_def
        TypeMissingDependency_def action_uuid_of_def)
qed

section \<open>Properties of the server asset source\<close>

text \<open>
  Claim C6. Once the request is built: an error of the HTTP client is returned as it is;
  a response whose status is not 200 gives the error "request returned non-200 response
  (status)", with the status code in decimal; a response with status 200 whose
  \<^verbatim>\<open>Content-Type\<close> is not \<^verbatim>\<open>application/json\<close> gives the error "request returned non-JSON
  response", and a response with such a content type gives an error whatever its status.
  In each case the payload is nil.
\<close>

theorem fetchAsset_failures:
  assumes "NewRequest ''GET'' url = Inr request"
  shows
  "(httpClient_Do s (authorized s request) = Inl err \<longrightarrow>
      fetchAsset NewRequest s url itemType = (None, Some err)) \<and>
   (httpClient_Do s (authorized s request) = Inr response \<and>
      resp_StatusCode response \<noteq> 200 \<longrightarrow>
      fetchAsset NewRequest s url itemType =
        (None, Some (''request returned non-200 response ('' @
                       show_int (resp_StatusCode response) @ '')''))) \<and>
   (httpClient_Do s (authorized s request) = Inr response \<and>
      resp_StatusCode response = 200 \<and>
      Header_Get (resp_Header response) ''Content-Type'' \<noteq> ''application/json'' \<longrightarrow>
      fetchAsset NewRequest s url itemType = (None, Some ''request returned non-JSON response'')) \<and>
   (httpClient_Do s (authorized s request) = Inr response \<and>
      Header_Get (resp_Header response) ''Content-Type'' \<noteq> ''application/json'' \<longrightarrow>
      fst (fetchAsset NewRequest s url itemType) = None \<and>
      snd (fetchAsset NewRequest s url itemType) \<noteq> None)"
  using assms by (simp add: fetchAsset_def)

text \<open>The status code 404 in decimal.\<close>

lemma show_int_404: "show_int 404 = ''404''"
  by (simp add: show_int_def show_nat.simps digit_char_def)

text \<open>Instances of C6: a refused connection, a 404 answer and an HTML answer.\<close>

theorem fetchAsset_failures_witness:
  "fetchAsset plain_request refusing_source ''http://assets/channel/'' ''channel'' =
     (None, Some ''connection refused'') \<and>
   fetchAsset plain_request not_found_source ''http://assets/channel/'' ''channel'' =
     (None, Some ''request returned non-200 response (404)'') \<and>
   fetchAsset plain_request html_source ''http://assets/channel/'' ''channel'' =
     (None, Some ''request returned non-JSON response'')"
proof -
  let ?url = "''http://assets/channel/''"
  let ?req = "\<lparr>req_Method = ''GET'', req_URL = ?url, req_Header = Map.empty\<rparr>"
  have n: "plain_request ''GET'' ?url =
      Inr \<lparr>req_Method = ''GET'', req_URL = ?url, req_Header = Map.empty\<rparr>"
    by (simp add: plain_request_def)
  have 1: "fetchAsset plain_request refusing_source ?url ''channel'' =
      (None, Some ''connection refused'')"
    using n fetchAsset_failures [where NewRequest = plain_request and url = ?url
        and request = ?req and s = refusing_source and err = "''connection refused''"
        and itemType = "''channel''"]
    by (simp add: refusing_source_def)
  have 2: "fetchAsset plain_request not_found_source ?url ''channel'' =
      (None, Some ''request returned non-200 response (404)'')"
    using n fetchAsset_failures [where NewRequest = plain_request and url = ?url
        and request = ?req and s = not_found_source and itemType = "''channel''" and response =
        "\<lparr>resp_StatusCode = 404, resp_Header = [''Content-Type'' \<mapsto> [''application/json'']],
          resp_ReadAll = (Some ''{}'', None)\<rparr>"]
    by (simp add: not_found_source_def show_int_404)
  have 3: "fetchAsset plain_request html_source ?url ''channel'' =
      (None, Some ''request returned non-JSON response'')"
    using n fetchAsset_failures [where NewRequest = plain_request and url = ?url
        and request = ?req and s = html_source and itemType = "''channel''" and response =
        "\<lparr>resp_StatusCode = 200, resp_Header = [''Content-Type'' \<mapsto> [''text/html'']],
          resp_ReadAll = (Some ''<html/>'', None)\<rparr>"]
    by (simp add: html_source_def Header_Get_def)
  from 1 2 3 show ?thesis by simp
qed

section \<open>Properties of the classifier action\<close>

lemma filter_template_events: "filter is_ClassifierCalled (template_events err) = []"
  by (cases err) (simp_all add: template_events_def)

text \<open>
  Claim C4. When the input evaluates to the empty string, \<^verbatim>\<open>Execute\<close> returns nil, saves
  under the result name of the action a result with the category skipped and the value
  "0", and logs the error of the evaluator (if any), the error "can't classify empty
  input, skipping classification" and the saved result: no classifier-called event is
  added to the log.
\<close>

theorem Execute_empty_input:
  assumes "EvaluateTemplate env (act_Input a) = ([], err)"
  shows "Execute env a run =
      (Returned None,
       run\<lparr>run_results :=
             (run_results run)(act_ResultName a \<mapsto> categorized_result a CategorySkipped []),
           run_events := run_events run @ template_events err @
             [Error (''can'' @ [CHR 0x27] @ ''t classify empty input, skipping classification''),
              RunResultChanged (categorized_result a CategorySkipped [])]\<rparr>) \<and>
    run_results (snd (Execute env a run)) (act_ResultName a) =
      Some (categorized_result a CategorySkipped []) \<and>
    result_Category (categorized_result a CategorySkipped []) = CategorySkipped \<and>
    result_Value (categorized_result a CategorySkipped []) = ''0'' \<and>
    filter is_ClassifierCalled (run_events (snd (Execute env a run))) =
      filter is_ClassifierCalled (run_events run)"
proof -
  have e: "Execute env a run =
      (Returned None,
       run\<lparr>run_results :=
             (run_results run)(act_ResultName a \<mapsto> categorized_result a CategorySkipped []),
           run_events := run_events run @ template_events err @
             [Error (''can'' @ [CHR 0x27] @ ''t classify empty input, skipping classification''),
              RunResultChanged (categorized_result a CategorySkipped [])]\<rparr>)"
    using assms
    by (cases err)
      (simp_all add: Execute_def classify_def saveSkipped_def saveResult_def logEvent_def
        categorized_result_def template_events_def Let_def)
  show ?thesis
    unfolding e by (simp add: filter_template_events categorized_result_def)
qed

text \<open>An instance of C4: the template fails to evaluate and gives the empty string.\<close>

theorem Execute_empty_input_witness:
  "EvaluateTemplate (no_assets_session [] (Some ''bad template'')) (act_Input booking_action) =
     ([], Some ''bad template'') \<and>
   Execute (no_assets_session [] (Some ''bad template'')) booking_action fresh_run =
     (Returned None,
      \<lparr>run_results = [''Intent'' \<mapsto> categorized_result booking_action CategorySkipped []],
       run_events = [Error ''bad template'',
          Error (''can'' @ [CHR 0x27] @ ''t classify empty input, skipping classification''),
          RunResultChanged (categorized_result booking_action CategorySkipped [])]\<rparr>)"
proof -
  have e: "EvaluateTemplate (no_assets_session [] (Some ''bad template''))
      (act_Input booking_action) = ([], Some ''bad template'')"
    by (simp add: no_assets_session_def)
  from Execute_empty_input [OF e, of fresh_run] e show ?thesis
    by (simp add: fresh_run_def template_events_def booking_action_def)
qed

text \<open>
  Claim C5. When the input evaluates to a non-empty string and the classifier of the
  action is not among the assets, \<^verbatim>\<open>Execute\<close> returns nil, saves under the result name of
  the action a result with the category failure and the value "0", and logs the error of
  the evaluator (if any), an error event "missing" followed by the reference of the
  classifier, and the saved result.
\<close>

theorem Execute_missing_classifier:
  assumes "EvaluateTemplate env (act_Input a) = (input, err)"
    and "input \<noteq> []"
    and "Classifiers_Get env (cref_UUID (act_Classifier a)) = None"
  shows "Execute env a run =
      (Returned None,
       run\<lparr>run_results :=
             (run_results run)(act_ResultName a \<mapsto> categorized_result a CategoryFailure input),
           run_events := run_events run @ template_events err @
             [Error (''missing '' @ Reference_String env (act_Classifier a)),
              RunResultChanged (categorized_result a CategoryFailure input)]\<rparr>) \<and>
    run_results (snd (Execute env a run)) (act_ResultName a) =
      Some (categorized_result a CategoryFailure input) \<and>
    result_Category (categorized_result a CategoryFailure input) = CategoryFailure \<and>
    result_Value (categorized_result a CategoryFailure input) = ''0''"
proof -
  have e: "Execute env a run =
      (Returned None,
       run\<lparr>run_results :=
             (run_results run)(act_ResultName a \<mapsto> categorized_result a CategoryFailure input),
           run_events := run_events run @ template_events err @
             [Error (''missing '' @ Reference_String env (act_Classifier a)),
              RunResultChanged (categorized_result a CategoryFailure input)]\<rparr>)"
    using assms
    by (cases err)
      (simp_all add: Execute_def classify_def saveFailure_def saveResult_def logEvent_def
        categorized_result_def template_events_def Let_def)
  show ?thesis
    unfolding e by (simp add: categorized_result_def)
qed

text \<open>An instance of C5: the input is a text and the session has no classifier.\<close>

theorem Execute_missing_classifier_witness:
  "EvaluateTemplate (no_assets_session ''book a flight'' None) (act_Input booking_action) =
     (''book a flight'', None) \<and>
   Classifiers_Get (no_assets_session ''book a flight'' None)
     (cref_UUID (act_Classifier booking_action)) = None \<and>
   Execute (no_assets_session ''book a flight'' None) booking_action fresh_run =
     (Returned None,
      \<lparr>run_results =
         [''Intent'' \<mapsto> categorized_result booking_action CategoryFailure ''book a flight''],
       run_events = [Error ''missing classifier[uuid=1c06c884,name=Booking]'',
          RunResultChanged (categorized_result booking_action CategoryFailure ''book a flight'')]\<rparr>)"
proof -
  have e: "EvaluateTemplate (no_assets_session ''book a flight'' None)
      (act_Input booking_action) = (''book a flight'', None)"
    by (simp add: no_assets_session_def)
  have n: "''book a flight'' \<noteq> []"
    by simp
  have g: "Classifiers_Get (no_assets_session ''book a flight'' None)
      (cref_UUID (act_Classifier booking_action)) = None"
    by (simp add: no_assets_session_def)
  from Execute_missing_classifier [OF e n g, of fresh_run] e g show ?thesis
    by (simp add: fresh_run_def template_events_def booking_action_def no_assets_session_def)
qed

section \<open>Properties of channel resolution\<close>

lemmas channel_defs = GetForURN_def pinned_affinity_def select_candidate_def getDelegate_def
  delegates_for_def HasRole_def SupportsScheme_def Scheme_def Path_def strip_plus_def
  prefix_match_def prefix_scores_def matching_prefixes_def overlap_match_def overlap_scores_def
  is_digit_def NewContactURN_def NewChannel_def NewTelChannel_def rolesDefault_def rolesSend_def
  claro_def mtn_def tigo_def twitter_def android_def bulk_def short1_def short2_def

text \<open>The selection by score: the last candidate with the greatest score is picked.\<close>

lemma pick_best_append: "pick_best (xs @ ys) best = pick_best ys (pick_best xs best)"
  by (induction xs arbitrary: best) auto

lemma pick_best_bounded:
  assumes "\<forall>p\<in>set xs. snd p \<le> n"
    and "case best of None \<Rightarrow> True | Some (b, m) \<Rightarrow> m \<le> n"
  shows "case pick_best xs best of None \<Rightarrow> True | Some (b, m) \<Rightarrow> m \<le> n"
  using assms
proof (induction xs arbitrary: best)
  case Nil
  then show ?case by simp
next
  case (Cons p xs)
  obtain c k where p: "p = (c, k)" by (cases p)
  from Cons.prems p have k: "k \<le> n" by simp
  have "case (case best of None \<Rightarrow> Some (c, k)
               | Some (b, m) \<Rightarrow> if m \<le> k then Some (c, k) else Some (b, m)) of
          None \<Rightarrow> True | Some (b, m) \<Rightarrow> m \<le> n"
    using Cons.prems(2) k by (auto split: option.splits)
  with Cons.IH Cons.prems(1) p show ?case by simp
qed

lemma pick_best_keeps:
  assumes "\<forall>p\<in>set ys. snd p < n"
  shows "pick_best ys (Some (a, n)) = Some (a, n)"
  using assms by (induction ys) auto

lemma pick_best_last_greatest:
  assumes "\<forall>p\<in>set xs. snd p \<le> n" and "\<forall>p\<in>set ys. snd p < n"
  shows "pick_best (xs @ (a, n) # ys) None = Some (a, n)"
proof -
  have "case pick_best xs None of None \<Rightarrow> True | Some (b, m) \<Rightarrow> m \<le> n"
    using assms(1) by (intro pick_best_bounded) simp_all
  then have "pick_best [(a, n)] (pick_best xs None) = Some (a, n)"
    by (auto split: option.splits)
  then have "pick_best (xs @ [(a, n)]) None = Some (a, n)"
    by (simp add: pick_best_append)
  then have "pick_best ((xs @ [(a, n)]) @ ys) None = pick_best ys (Some (a, n))"
    by (simp only: pick_best_append)
  with assms(2) show ?thesis
    by (simp add: pick_best_keeps)
qed

lemma overlap_match_last_greatest:
  assumes "\<forall>c\<in>set xs. overlap (strip_plus (ch_Address c)) number
             \<le> overlap (strip_plus (ch_Address a)) number"
    and "\<forall>c\<in>set ys. overlap (strip_plus (ch_Address c)) number
             < overlap (strip_plus (ch_Address a)) number"
  shows "overlap_match (xs @ a # ys) number = Some a"
  using assms
  by (simp add: overlap_match_def overlap_scores_def pick_best_last_greatest)

text \<open>
  Claim C1. With the channels Claro, MTN and Tigo declared in that order and the role
  send, the URN \<^verbatim>\<open>tel:+250781234567\<close> resolves to MTN (the overlaps are 0, 5 and 4), the URN
  \<^verbatim>\<open>tel:+250721234567\<close> to Tigo (0, 4 and 5) and the URN \<^verbatim>\<open>tel:+250962222222\<close> to Tigo (0, 3
  and 3). In general the overlap rule selects the candidate whose overlap is at least that
  of every candidate declared before it and greater than that of every candidate declared
  after it: the greatest overlap, and among equal overlaps the channel declared last.
\<close>

theorem scenario_C:
  "GetForURN [claro, mtn, tigo] (NewContactURN ''tel:+250781234567'' None) ChannelRoleSend = Some mtn \<and>
   GetForURN [claro, mtn, tigo] (NewContactURN ''tel:+250721234567'' None) ChannelRoleSend = Some tigo \<and>
   GetForURN [claro, mtn, tigo] (NewContactURN ''tel:+250962222222'' None) ChannelRoleSend = Some tigo \<and>
   map snd (overlap_scores [claro, mtn, tigo] ''250781234567'') = [0, 5, 4] \<and>
   map snd (overlap_scores [claro, mtn, tigo] ''250721234567'') = [0, 4, 5] \<and>
   map snd (overlap_scores [claro, mtn, tigo] ''250962222222'') = [0, 3, 3] \<and>
   ((\<forall>c\<in>set xs. overlap (strip_plus (ch_Address c)) number
         \<le> overlap (strip_plus (ch_Address a)) number) \<and>
    (\<forall>c\<in>set ys. overlap (strip_plus (ch_Address c)) number
         < overlap (strip_plus (ch_Address a)) number) \<longrightarrow>
    overlap_match (xs @ a # ys) number = Some a)"
proof -
  have mtn: "GetForURN [claro, mtn, tigo] (NewContactURN ''tel:+250781234567'' None)
      ChannelRoleSend = Some mtn"
    by (simp add: channel_defs)
  have tigo: "GetForURN [claro, mtn, tigo] (NewContactURN ''tel:+250721234567'' None)
      ChannelRoleSend = Some tigo"
    by (simp add: channel_defs)
  have tie: "GetForURN [claro, mtn, tigo] (NewContactURN ''tel:+250962222222'' None)
      ChannelRoleSend = Some tigo"
    by (simp add: channel_defs)
  have scores: "map snd (overlap_scores [claro, mtn, tigo] ''250781234567'') = [0, 5, 4]"
    "map snd (overlap_scores [claro, mtn, tigo] ''250721234567'') = [0, 4, 5]"
    "map snd (overlap_scores [claro, mtn, tigo] ''250962222222'') = [0, 3, 3]"
    by (simp_all add: channel_defs)
  from mtn tigo tie scores overlap_match_last_greatest [of xs number a ys]
  show ?thesis by blast
qed

text \<open>An instance of the tie of C1: MTN and Tigo both overlap in three digits with
  250962222222, and Tigo, declared last, is selected.\<close>

theorem scenario_C_witness:
  "overlap (strip_plus (ch_Address claro)) ''250962222222'' = 0 \<and>
   overlap (strip_plus (ch_Address mtn)) ''250962222222'' = 3 \<and>
   overlap (strip_plus (ch_Address tigo)) ''250962222222'' = 3 \<and>
   overlap_match [claro, mtn, tigo] ''250962222222'' = Some tigo"
proof -
  have o: "overlap (strip_plus (ch_Address claro)) ''250962222222'' = 0"
    "overlap (strip_plus (ch_Address mtn)) ''250962222222'' = 3"
    "overlap (strip_plus (ch_Address tigo)) ''250962222222'' = 3"
    by (simp_all add: channel_defs)
  from scenario_C [where xs = "[claro, mtn]" and a = tigo and ys = "[]"
      and number = "''250962222222''"] o
  have "overlap_match [claro, mtn, tigo] ''250962222222'' = Some tigo"
    by simp
  with o show ?thesis by simp
qed

text \<open>What \<^verbatim>\<open>find\<close> gives, and the two cases of the delegation.\<close>

lemma find_Some_member: "find P xs = Some x \<Longrightarrow> x \<in> set xs \<and> P x"
  by (induction xs) (auto split: if_splits)

lemma find_None_none: "find P xs = None \<longleftrightarrow> \<not> (\<exists>x\<in>set xs. P x)"
  by (induction xs) auto

lemma getDelegate_substitutes:
  assumes "\<exists>d\<in>set all. delegates_for d ch \<and> HasRole d role"
  shows "getDelegate all ch role \<in> set all \<and> delegates_for (getDelegate all ch role) ch \<and>
     HasRole (getDelegate all ch role) role"
proof (cases "find (\<lambda>d. delegates_for d ch \<and> HasRole d role) all")
  case None
  with assms show ?thesis by (simp add: find_None_none)
next
  case (Some d)
  from find_Some_member [OF Some] Some show ?thesis
    by (simp add: getDelegate_def)
qed

lemma getDelegate_keeps:
  assumes "\<not> (\<exists>d\<in>set all. delegates_for d ch \<and> HasRole d role)"
  shows "getDelegate all ch role = ch"
proof -
  from assms have "find (\<lambda>d. delegates_for d ch \<and> HasRole d role) all = None"
    by (simp add: find_None_none)
  then show ?thesis by (simp add: getDelegate_def)
qed

text \<open>
  Claim C2. If the URN carries a channel, and that channel has the required role or a
  channel of the set delegates for it and has the required role, then the resolution
  returns the pinned channel with the delegation applied: a channel with the required role
  that is the pinned channel or a delegate of it. The other channels of the set, their
  addresses and overlaps, play no part.
\<close>

theorem pinned_channel_wins:
  assumes "urn_Channel urn = Some ch"
    and "HasRole ch role \<or> (\<exists>d\<in>set all. delegates_for d ch \<and> HasRole d role)"
  shows "GetForURN all urn role = Some (getDelegate all ch role) \<and>
    HasRole (getDelegate all ch role) role \<and>
    (getDelegate all ch role = ch \<or> delegates_for (getDelegate all ch role) ch)"
proof -
  have r: "HasRole (getDelegate all ch role) role \<and>
    (getDelegate all ch role = ch \<or> delegates_for (getDelegate all ch role) ch)"
  proof (cases "\<exists>d\<in>set all. delegates_for d ch \<and> HasRole d role")
    case True
    then show ?thesis using getDelegate_substitutes [of all ch role] by simp
  next
    case False
    with assms(2) show ?thesis using getDelegate_keeps [of all ch role] by simp
  qed
  with assms(1) show ?thesis
    by (simp add: GetForURN_def pinned_affinity_def)
qed

text \<open>An instance of C2, from the test: the URN is bound to Tigo.\<close>

theorem pinned_channel_wins_witness:
  "urn_Channel (NewContactURN ''tel:+250962222222'' (Some tigo)) = Some tigo \<and>
   HasRole tigo ChannelRoleSend \<and>
   getDelegate [claro, mtn, tigo, twitter] tigo ChannelRoleSend = tigo \<and>
   GetForURN [claro, mtn, tigo, twitter] (NewContactURN ''tel:+250962222222'' (Some tigo))
     ChannelRoleSend = Some tigo"
proof -
  have p: "urn_Channel (NewContactURN ''tel:+250962222222'' (Some tigo)) = Some tigo"
    by (simp add: NewContactURN_def)
  have h: "HasRole tigo ChannelRoleSend"
    by (simp add: channel_defs)
  have d: "getDelegate [claro, mtn, tigo, twitter] tigo ChannelRoleSend = tigo"
    by (simp add: channel_defs)
  from pinned_channel_wins [OF p, of ChannelRoleSend "[claro, mtn, tigo, twitter]"] h p d
  show ?thesis by simp
qed

text \<open>
  Claim C3. Whatever the resolution returns has the required role. For a selected channel,
  a delegate is substituted exactly when a channel of the set delegates for it and has the
  required role, and what is substituted is such a channel; otherwise the selection stays.
  Without a pinned channel the result is the selection with the delegation applied, or
  none if that lacks the role.
\<close>

theorem delegate_only_with_role:
  "(GetForURN all urn role = Some c \<longrightarrow> HasRole c role) \<and>
   ((\<exists>d\<in>set all. delegates_for d sel \<and> HasRole d role) \<longrightarrow>
      getDelegate all sel role \<in> set all \<and> delegates_for (getDelegate all sel role) sel \<and>
      HasRole (getDelegate all sel role) role) \<and>
   (\<not> (\<exists>d\<in>set all. delegates_for d sel \<and> HasRole d role) \<longrightarrow>
      getDelegate all sel role = sel) \<and>
   (urn_Channel urn = None \<and> select_candidate all urn = Some sel \<longrightarrow>
      GetForURN all urn role =
        (if HasRole (getDelegate all sel role) role then Some (getDelegate all sel role) else None))"
proof -
  have 1: "GetForURN all urn role = Some c \<longrightarrow> HasRole c role"
    by (auto simp: GetForURN_def pinned_affinity_def Let_def split: option.splits if_splits)
  have 4: "urn_Channel urn = None \<and> select_candidate all urn = Some sel \<longrightarrow>
      GetForURN all urn role =
        (if HasRole (getDelegate all sel role) role then Some (getDelegate all sel role) else None)"
    by (simp add: GetForURN_def pinned_affinity_def Let_def)
  from 1 4 getDelegate_substitutes [of all sel role] getDelegate_keeps [of all sel role]
  show ?thesis
    by blast
qed

text \<open>An instance of C3, from the test: Bulk Sender delegates for Android and can send
  but not receive.\<close>

theorem delegate_only_with_role_witness:
  "select_candidate [android, bulk] (NewContactURN ''tel:+250721234567'' None) = Some android \<and>
   delegates_for bulk android \<and> HasRole bulk ChannelRoleSend \<and>
   GetForURN [android, bulk] (NewContactURN ''tel:+250721234567'' None) ChannelRoleSend = Some bulk \<and>
   \<not> HasRole bulk ChannelRoleReceive \<and>
   GetForURN [android, bulk] (NewContactURN ''tel:+250721234567'' None) ChannelRoleReceive = Some android"
proof -
  let ?urn = "NewContactURN ''tel:+250721234567'' None"
  have s: "urn_Channel ?urn = None \<and> select_candidate [android, bulk] ?urn = Some android"
    by (simp add: channel_defs)
  have b: "delegates_for bulk android" "HasRole bulk ChannelRoleSend"
    "\<not> HasRole bulk ChannelRoleReceive" "HasRole android ChannelRoleReceive"
    by (simp_all add: channel_defs)
  have ex: "\<exists>d\<in>set [android, bulk]. delegates_for d android \<and> HasRole d ChannelRoleSend"
    using b by simp
  have nex: "\<not> (\<exists>d\<in>set [android, bulk]. delegates_for d android \<and> HasRole d ChannelRoleReceive)"
    by (simp add: channel_defs)
  have gs: "getDelegate [android, bulk] android ChannelRoleSend = bulk"
    by (simp add: channel_defs)
  from delegate_only_with_role [of "[android, bulk]" ?urn ChannelRoleSend bulk android] s b gs
  have 1: "GetForURN [android, bulk] ?urn ChannelRoleSend = Some bulk"
    by simp
  from delegate_only_with_role [of "[android, bulk]" ?urn ChannelRoleReceive android android] s nex b
  have 2: "GetForURN [android, bulk] ?urn ChannelRoleReceive = Some android"
    by simp
  from s b 1 2 show ?thesis by simp
qed

text \<open>The assertions of the test \<^verbatim>\<open>TestChannelSetGetForURN\<close> hold of the model.\<close>

lemma TestChannelSetGetForURN:
  "GetForURN [] (NewContactURN ''tel:+12345678999'' None) ChannelRoleSend = None"
  "GetForURN [claro, mtn, tigo, twitter] (NewContactURN ''mailto:rowan@foo.bar'' None) ChannelRoleSend = None"
  "GetForURN [claro, mtn, tigo, twitter] (NewContactURN ''tel:+250962222222'' (Some tigo)) ChannelRoleSend = Some tigo"
  "GetForURN [claro, mtn, tigo, twitter] (NewContactURN ''twitter:nyaruka2'' None) ChannelRoleSend = Some twitter"
  "GetForURN [claro, mtn, tigo, twitter] (NewContactURN ''tel:+593971234567'' None) ChannelRoleSend = Some claro"
  "GetForURN [claro, mtn, tigo, twitter] (NewContactURN ''tel:+250781234567'' None) ChannelRoleSend = Some mtn"
  "GetForURN [claro, mtn, tigo, twitter] (NewContactURN ''tel:+250721234567'' None) ChannelRoleSend = Some tigo"
  "GetForURN [claro, mtn, tigo, twitter] (NewContactURN ''tel:+250962222222'' None) ChannelRoleSend = Some tigo"
  "GetForURN [android, bulk] (NewContactURN ''tel:+250721234567'' None) ChannelRoleReceive = Some android"
  "GetForURN [android, bulk] (NewContactURN ''tel:+250721234567'' None) ChannelRoleSend = Some bulk"
  "GetForURN [short1, short2] (NewContactURN ''tel:+250781234567'' None) ChannelRoleSend = Some short1"
  "GetForURN [short1, short2] (NewContactURN ''tel:+250771234567'' None) ChannelRoleSend = Some short1"
  "GetForURN [short1, short2] (NewContactURN ''tel:+250721234567'' None) ChannelRoleSend = Some short2"
  by (simp_all add: channel_defs)

end
